theory Spec2Isabelle
  imports Complex_Main
begin

section \<open>The upload negotiator of \<^verbatim>\<open>lambda_script.mjs\<close>\<close>

text \<open>
  The handler receives one event, reads a JSON body out of it, and answers with one
  response after zero or more calls to the S3 SDK. It is modelled as a function from the
  outcome of reading the body to a pair: what the handler produced (a response, or the
  exception that left it) and the SDK calls it made, in order.

  What the language and the SDK do is taken as given, not modelled:
  \<^item> \<^verbatim>\<open>JSON.parse\<close>: the model starts from its outcome (type \<open>event_body\<close>);
  \<^item> the coercion of a value that is not a number to a number, and the SDK's two entry
    points \<^verbatim>\<open>getSignedUrl\<close> and \<^verbatim>\<open>s3Client.send\<close>: they are fields of the
    environment (type \<open>env\<close>), so every theorem holds for any behaviour of theirs;
  \<^item> \<^verbatim>\<open>JSON.stringify\<close>: a response carries the object it is given.

  A number is a rational, \<open>NaN\<close> or one of the two infinities, and the arithmetic on
  rationals is exact. A double is one of these numbers; the arithmetic of the module on
  doubles is rounded, which changes neither the counter of the loop, which stays below
  \<open>2 ^ 32\<close>, nor the ceiling of \<open>fileSize / SINGLE_UPLOAD_LIMIT\<close> while that is below
  \<open>2 ^ 32\<close>; above, the loop ends in the same way for every number of parts. The two
  zeros are one number, taken as positive where the sign matters.
\<close>

subsection \<open>Values\<close>

datatype number = NaN | Fin rat | PosInfinity | NegInfinity

datatype jsval =
    JUndefined
  | JNull
  | JBool bool
  | JNum number
  | JStr string
  | JArr "jsval list"
  | JObj "(string \<times> jsval) list"

text \<open>The truth value the language gives a value in \<^verbatim>\<open>!x\<close>, \<^verbatim>\<open>x && y\<close> and \<^verbatim>\<open>x ? a : b\<close>.\<close>

fun truthy :: "jsval \<Rightarrow> bool" where
  "truthy JUndefined = False"
| "truthy JNull = False"
| "truthy (JBool b) = b"
| "truthy (JNum NaN) = False"
| "truthy (JNum (Fin r)) = (r \<noteq> 0)"
| "truthy (JNum PosInfinity) = True"
| "truthy (JNum NegInfinity) = True"
| "truthy (JStr s) = (s \<noteq> [])"
| "truthy (JArr xs) = True"
| "truthy (JObj ps) = True"

text \<open>
  Reading a property of an object, given as the table of its own properties; a name it
  does not have reads as \<open>undefined\<close>.
\<close>

definition read_prop :: "(string \<times> jsval) list \<Rightarrow> string \<Rightarrow> jsval" where
  "read_prop ps k = (case map_of ps k of None \<Rightarrow> JUndefined | Some v \<Rightarrow> v)"

text \<open>
  Reading one of the names the handler destructures (\<^verbatim>\<open>fileName\<close>, \<^verbatim>\<open>contentType\<close>,
  \<^verbatim>\<open>fileSize\<close>, \<^verbatim>\<open>uploadId\<close>, \<^verbatim>\<open>complete\<close>, \<^verbatim>\<open>parts\<close>) from a value that is neither
  \<open>null\<close> nor \<open>undefined\<close>: a boolean, a number, a string and an array have none of
  them.
\<close>

fun get_field :: "jsval \<Rightarrow> string \<Rightarrow> jsval" where
  "get_field (JObj ps) k = read_prop ps k"
| "get_field v k = JUndefined"

text \<open>
  \<^verbatim>\<open>a <= b\<close> and \<^verbatim>\<open>a / b\<close> on numbers, and \<^verbatim>\<open>Math.ceil\<close>. A comparison with
  \<open>NaN\<close> is false and an operation on \<open>NaN\<close> is \<open>NaN\<close>. The only divisor in the module
  is \<open>SINGLE_UPLOAD_LIMIT\<close>, which is finite and positive.
\<close>

fun js_le :: "number \<Rightarrow> number \<Rightarrow> bool" where
  "js_le NaN y = False"
| "js_le x NaN = False"
| "js_le NegInfinity y = True"
| "js_le x PosInfinity = True"
| "js_le PosInfinity y = False"
| "js_le (Fin a) NegInfinity = False"
| "js_le (Fin a) (Fin b) = (a \<le> b)"

fun js_neg :: "number \<Rightarrow> number" where
  "js_neg NaN = NaN"
| "js_neg (Fin a) = Fin (- a)"
| "js_neg PosInfinity = NegInfinity"
| "js_neg NegInfinity = PosInfinity"

fun js_div :: "number \<Rightarrow> number \<Rightarrow> number" where
  "js_div NaN y = NaN"
| "js_div x NaN = NaN"
| "js_div (Fin a) (Fin b) =
     (if b \<noteq> 0 then Fin (a / b)
      else if a = 0 then NaN else if 0 < a then PosInfinity else NegInfinity)"
| "js_div (Fin a) y = Fin 0"
| "js_div x (Fin b) = (if 0 \<le> b then x else js_neg x)"
| "js_div x y = NaN"

fun Math_ceil :: "number \<Rightarrow> number" where
  "Math_ceil (Fin a) = Fin (of_int \<lceil>a\<rceil>)"
| "Math_ceil x = x"

subsection \<open>The SDK\<close>

text \<open>
  The commands the module imports, with the fields the code gives them:
  \<open>Bucket\<close>, \<open>Key\<close>, then \<open>ContentType\<close>, or \<open>UploadId\<close> and \<open>PartNumber\<close> or
  \<open>MultipartUpload.Parts\<close>. \<open>AbortMultipartUploadCommand\<close> is imported and never built.
\<close>

datatype command =
    PutObjectCommand jsval jsval jsval
  | CreateMultipartUploadCommand jsval jsval jsval
  | UploadPartCommand jsval jsval jsval int
  | CompleteMultipartUploadCommand jsval jsval jsval jsval
  | AbortMultipartUploadCommand jsval jsval jsval

text \<open>A call: \<^verbatim>\<open>getSignedUrl(s3Client, command, { expiresIn })\<close> or \<^verbatim>\<open>s3Client.send(command)\<close>.\<close>

datatype s3_call = GetSignedUrl command nat | Send command

text \<open>A call that fails rejects with an error; the handler reads its \<^verbatim>\<open>message\<close>.\<close>

datatype rejected = Rejected (message: string)

text \<open>
  The environment of the module: the bucket name read from the process environment, the
  language's coercion of a value that is not a number, the message of the \<open>RangeError\<close>
  that the engine throws when an array outgrows its greatest length, and the two SDK
  entry points. An entry point sees the calls made before it in this invocation, so its
  answer may change from one call to the next. \<open>send\<close> resolves to an output object,
  given by its properties.
\<close>

record env =
  BUCKET :: jsval
  ToNumber :: "jsval \<Rightarrow> number"
  array_length_message :: string
  getSignedUrl :: "s3_call list \<Rightarrow> command \<Rightarrow> nat \<Rightarrow> rejected + string"
  send :: "s3_call list \<Rightarrow> command \<Rightarrow> rejected + (string \<times> jsval) list"

definition to_number :: "env \<Rightarrow> jsval \<Rightarrow> number" where
  "to_number e v = (case v of JNum n \<Rightarrow> n | _ \<Rightarrow> ToNumber e v)"

text \<open>The message a call is rejected with after the calls \<open>calls\<close>, if it is rejected.\<close>

fun rejection :: "env \<Rightarrow> s3_call list \<Rightarrow> s3_call \<Rightarrow> string option" where
  "rejection e calls (GetSignedUrl cmd expiresIn) =
     (case getSignedUrl e calls cmd expiresIn of Inl (Rejected m) \<Rightarrow> Some m | Inr url \<Rightarrow> None)"
| "rejection e calls (Send cmd) =
     (case send e calls cmd of Inl (Rejected m) \<Rightarrow> Some m | Inr out \<Rightarrow> None)"

text \<open>
  What the \<^verbatim>\<open>catch\<close> of line 60 can catch: the error of a rejected call, or the
  \<open>RangeError\<close> of \<^verbatim>\<open>urls.push\<close> at line 104. An array has at most \<open>2 ^ 32 - 1\<close> entries:
  the \<^verbatim>\<open>push\<close> that would give it one more throws. \<open>err_message\<close> is \<^verbatim>\<open>err.message\<close>.
\<close>

datatype caught = CallRejected rejected | RangeError

fun err_message :: "env \<Rightarrow> caught \<Rightarrow> string" where
  "err_message e (CallRejected err) = message err"
| "err_message e RangeError = array_length_message e"

definition MAX_ARRAY_LENGTH :: nat where
  "MAX_ARRAY_LENGTH = 2 ^ 32 - 1"

subsection \<open>Responses\<close>

text \<open>
  The four objects the code builds as a response body:
  \<^item> \<^verbatim>\<open>{ uploadType: "single", fileName, contentType, url }\<close>
  \<^item> \<^verbatim>\<open>{ uploadType: "multipart", fileName, contentType, uploadId, totalParts, urls }\<close>,
    each entry of \<open>urls\<close> being \<^verbatim>\<open>{ partNumber, url }\<close>
  \<^item> \<^verbatim>\<open>{ uploadType: "multipart", fileName, result }\<close>
  \<^item> \<^verbatim>\<open>{ error }\<close>
\<close>

datatype response_body =
    SingleUploadPlan jsval jsval string
  | MultipartStartPlan jsval jsval jsval number "(int \<times> string) list"
  | MultipartCompleteResult jsval "(string \<times> jsval) list"
  | ErrorResponse string

record response =
  statusCode :: nat
  headers :: "(string \<times> string) list"
  body :: response_body

definition formatResponse :: "nat \<Rightarrow> response_body \<Rightarrow> response" where
  "formatResponse code b =
     \<lparr>statusCode = code, headers = [(''Content-Type'', ''application/json'')], body = b\<rparr>"

subsection \<open>The functions of the module\<close>

definition SINGLE_UPLOAD_LIMIT :: rat where
  "SINGLE_UPLOAD_LIMIT = 5 * 1024 * 1024"

definition chooseUploadType :: "env \<Rightarrow> jsval \<Rightarrow> string" where
  "chooseUploadType e fileSize =
     (if \<not> truthy fileSize then ''single''
      else if js_le (to_number e fileSize) (Fin SINGLE_UPLOAD_LIMIT) then ''single''
      else ''multipart'')"

text \<open>
  An asynchronous function takes the calls made so far and returns its result, or the
  error it throws, and the calls made after it.
\<close>

definition getPresignedUrl ::
  "env \<Rightarrow> jsval \<Rightarrow> jsval \<Rightarrow> s3_call list \<Rightarrow> (caught + response_body) \<times> s3_call list" where
  "getPresignedUrl e fileName contentType calls =
     (let command = PutObjectCommand (BUCKET e) fileName contentType in
      case getSignedUrl e calls command 900 of
        Inl err \<Rightarrow> (Inl (CallRejected err), calls @ [GetSignedUrl command 900])
      | Inr url \<Rightarrow>
          (Inr (SingleUploadPlan fileName contentType url), calls @ [GetSignedUrl command 900]))"

text \<open>
  The loop of \<^verbatim>\<open>startMultipart\<close>, from the current \<open>partNumber\<close>, with the \<open>urls\<close>
  pushed so far. In each round the URL is awaited first and pushed next; the push throws
  when \<open>urls\<close> is full. The loop ends for every \<open>totalParts\<close>, the infinite one too: no
  later than at the push that \<open>urls\<close> has no room for.
\<close>

function part_urls ::
  "env \<Rightarrow> jsval \<Rightarrow> jsval \<Rightarrow> number \<Rightarrow> int \<Rightarrow> (int \<times> string) list \<Rightarrow> s3_call list
     \<Rightarrow> (caught + (int \<times> string) list) \<times> s3_call list" where
  "part_urls e fileName UploadId totalParts partNumber urls calls =
     (if js_le (Fin (of_int partNumber)) totalParts then
        (let uploadPartCommand = UploadPartCommand (BUCKET e) fileName UploadId partNumber in
         case getSignedUrl e calls uploadPartCommand 3600 of
           Inl err \<Rightarrow> (Inl (CallRejected err), calls @ [GetSignedUrl uploadPartCommand 3600])
         | Inr url \<Rightarrow>
             if length urls < MAX_ARRAY_LENGTH then
               part_urls e fileName UploadId totalParts (partNumber + 1)
                 (urls @ [(partNumber, url)]) (calls @ [GetSignedUrl uploadPartCommand 3600])
             else (Inl RangeError, calls @ [GetSignedUrl uploadPartCommand 3600]))
      else (Inr urls, calls))"
  by pat_completeness auto
termination
  by (relation "measure (\<lambda>(e, fileName, UploadId, totalParts, partNumber, urls, calls).
    MAX_ARRAY_LENGTH - length urls)") auto

definition startMultipart ::
  "env \<Rightarrow> jsval \<Rightarrow> jsval \<Rightarrow> jsval \<Rightarrow> s3_call list
     \<Rightarrow> (caught + response_body) \<times> s3_call list" where
  "startMultipart e fileName contentType fileSize calls =
     (let totalParts = Math_ceil (js_div (to_number e fileSize) (Fin SINGLE_UPLOAD_LIMIT));
          createCommand = CreateMultipartUploadCommand (BUCKET e) fileName contentType in
      case send e calls createCommand of
        Inl err \<Rightarrow> (Inl (CallRejected err), calls @ [Send createCommand])
      | Inr out \<Rightarrow>
          (let UploadId = read_prop out ''UploadId'' in
           case part_urls e fileName UploadId totalParts 1 [] (calls @ [Send createCommand]) of
             (Inl err, calls') \<Rightarrow> (Inl err, calls')
           | (Inr urls, calls') \<Rightarrow>
               (Inr (MultipartStartPlan fileName contentType UploadId totalParts urls), calls')))"

definition completeMultipart ::
  "env \<Rightarrow> jsval \<Rightarrow> jsval \<Rightarrow> jsval \<Rightarrow> s3_call list
     \<Rightarrow> (caught + response_body) \<times> s3_call list" where
  "completeMultipart e fileName uploadId parts calls =
     (let command = CompleteMultipartUploadCommand (BUCKET e) fileName uploadId parts in
      case send e calls command of
        Inl err \<Rightarrow> (Inl (CallRejected err), calls @ [Send command])
      | Inr result \<Rightarrow> (Inr (MultipartCompleteResult fileName result), calls @ [Send command]))"

subsection \<open>The handler\<close>

text \<open>
  What line 22 makes of the event:
  \<^item> \<open>NoBody\<close>: \<^verbatim>\<open>event.body\<close> is falsy (absent, \<open>null\<close> or the empty string), and the
    body is the empty object;
  \<^item> \<open>Unparseable\<close>: evaluating \<^verbatim>\<open>JSON.parse(event.body)\<close> throws (the text is not JSON,
    or there is no event to read a body from);
  \<^item> \<open>Parsed v\<close>: \<^verbatim>\<open>JSON.parse(event.body)\<close> returns \<open>v\<close>.
\<close>

datatype event_body = NoBody | Unparseable | Parsed jsval

text \<open>The exception that leaves the handler: destructuring \<open>null\<close> at line 27.\<close>

datatype js_error = TypeError

text \<open>The block under \<^verbatim>\<open>try\<close> at line 33, after the destructuring and the first check.\<close>

definition dispatch ::
  "env \<Rightarrow> jsval \<Rightarrow> jsval \<Rightarrow> jsval \<Rightarrow> jsval \<Rightarrow> jsval \<Rightarrow> jsval
     \<Rightarrow> (caught + response) \<times> s3_call list" where
  "dispatch e fileName contentType fileSize uploadId complete' parts =
     (let uploadType = chooseUploadType e fileSize in
      if uploadType = ''single'' then
        (case getPresignedUrl e fileName contentType [] of
           (Inl err, calls) \<Rightarrow> (Inl err, calls)
         | (Inr response, calls) \<Rightarrow> (Inr (formatResponse 200 response), calls))
      else if uploadType = ''multipart'' then
        (if \<not> truthy uploadId then
           (case startMultipart e fileName contentType fileSize [] of
              (Inl err, calls) \<Rightarrow> (Inl err, calls)
            | (Inr response, calls) \<Rightarrow> (Inr (formatResponse 200 response), calls))
         else if truthy uploadId \<and> truthy complete' \<and> truthy parts then
           (case completeMultipart e fileName uploadId parts [] of
              (Inl err, calls) \<Rightarrow> (Inl err, calls)
            | (Inr response, calls) \<Rightarrow> (Inr (formatResponse 200 response), calls))
         else
           (Inr (formatResponse 400 (ErrorResponse
              ''Invalid multipart request. Make sure to provide 'uploadId', 'complete', and 'parts' when completing multipart upload.'')),
            []))
      else (Inr (formatResponse 400 (ErrorResponse ''Invalid request flow'')), []))"

text \<open>Lines 27 to 63: the handler on the body it has read.\<close>

definition handle_body :: "env \<Rightarrow> jsval \<Rightarrow> (js_error + response) \<times> s3_call list" where
  "handle_body e b =
     (if b = JNull \<or> b = JUndefined then (Inl TypeError, [])
      else
        (let fileName = get_field b ''fileName'';
             contentType = get_field b ''contentType'';
             fileSize = get_field b ''fileSize'';
             uploadId = get_field b ''uploadId'';
             complete' = get_field b ''complete'';
             parts = get_field b ''parts'' in
         if \<not> truthy fileName \<or> \<not> truthy contentType \<or> \<not> truthy fileSize then
           (Inr (formatResponse 400
              (ErrorResponse (''Missing 'fileName', 'contentType' or 'fileSize'' @ [CHR 0x27]))),
            [])
         else
           (case dispatch e fileName contentType fileSize uploadId complete' parts of
              (Inl err, calls) \<Rightarrow>
                (Inr (formatResponse 500 (ErrorResponse (err_message e err))), calls)
            | (Inr response, calls) \<Rightarrow> (Inr response, calls))))"

definition handler :: "env \<Rightarrow> event_body \<Rightarrow> (js_error + response) \<times> s3_call list" where
  "handler e ev =
     (case ev of
        Unparseable \<Rightarrow> (Inr (formatResponse 400 (ErrorResponse ''Invalid JSON body'')), [])
      | NoBody \<Rightarrow> handle_body e (JObj [])
      | Parsed v \<Rightarrow> handle_body e v)"

subsection \<open>Runs of the handler\<close>

text \<open>
  What a result says about the last call: the message it was rejected with, if any.
\<close>

fun outcome :: "caught + 'a \<Rightarrow> string option" where
  "outcome (Inl (CallRejected (Rejected m))) = Some m"
| "outcome (Inl RangeError) = None"
| "outcome (Inr x) = None"

text \<open>
  \<open>trace e calls r\<close>: in the environment \<open>e\<close>, the calls \<open>calls\<close>, made in this order from
  the start of the invocation, were all answered, except that the last one was rejected
  with the message \<open>m\<close> when \<open>r = Some m\<close>.
\<close>

inductive trace :: "env \<Rightarrow> s3_call list \<Rightarrow> string option \<Rightarrow> bool" for e :: env where
  trace_none: "trace e [] None"
| trace_resolved: "trace e calls None \<Longrightarrow> rejection e calls c = None \<Longrightarrow> trace e (calls @ [c]) None"
| trace_rejected: "trace e calls None \<Longrightarrow> rejection e calls c = Some m \<Longrightarrow> trace e (calls @ [c]) (Some m)"

text \<open>
  The call that signs the URL of one entry of \<open>urls\<close>, and the statement that every entry
  of \<open>urls\<close> holds the answer to its call, each call made after the calls before it.
\<close>

definition part_call :: "env \<Rightarrow> jsval \<Rightarrow> jsval \<Rightarrow> int \<times> string \<Rightarrow> s3_call" where
  "part_call e fileName UploadId pu =
     GetSignedUrl (UploadPartCommand (BUCKET e) fileName UploadId (fst pu)) 3600"

fun signed_parts :: "env \<Rightarrow> jsval \<Rightarrow> jsval \<Rightarrow> s3_call list \<Rightarrow> (int \<times> string) list \<Rightarrow> bool" where
  "signed_parts e fileName UploadId calls [] = True"
| "signed_parts e fileName UploadId calls (pu # rest) =
     (getSignedUrl e calls (UploadPartCommand (BUCKET e) fileName UploadId (fst pu)) 3600 = Inr (snd pu)
      \<and> signed_parts e fileName UploadId (calls @ [part_call e fileName UploadId pu]) rest)"

subsection \<open>Sample environments and requests\<close>

text \<open>
  An environment in which every call is answered, and one in which signing is rejected
  from the third call of an invocation on.
\<close>

definition sample_env :: env where
  "sample_env =
     \<lparr>BUCKET = JStr ''uploads'',
      ToNumber = (\<lambda>v. NaN),
      array_length_message = ''Invalid array length'',
      getSignedUrl = (\<lambda>calls command expiresIn. Inr ''https://signed''),
      send = (\<lambda>calls command. Inr [(''UploadId'', JStr ''session-1'')])\<rparr>"

definition rejecting_env :: env where
  "rejecting_env =
     \<lparr>BUCKET = JStr ''uploads'',
      ToNumber = (\<lambda>v. NaN),
      array_length_message = ''Invalid array length'',
      getSignedUrl = (\<lambda>calls command expiresIn.
         if length calls < 2 then Inr ''https://signed'' else Inl (Rejected ''AccessDenied'')),
      send = (\<lambda>calls command. Inr [(''UploadId'', JStr ''session-1'')])\<rparr>"

text \<open>
  A request for \<^verbatim>\<open>a.bin\<close> of the given size with further fields, and the fields of a
  completion whose parts are out of order and repeated.
\<close>

definition request :: "rat \<Rightarrow> (string \<times> jsval) list \<Rightarrow> jsval" where
  "request fileSize others =
     JObj ([(''fileName'', JStr ''a.bin''), (''contentType'', JStr ''application/octet-stream''),
            (''fileSize'', JNum (Fin fileSize))] @ others)"

definition sample_parts :: jsval where
  "sample_parts =
     JArr [JObj [(''PartNumber'', JNum (Fin 2)), (''ETag'', JStr ''etag-b'')],
           JObj [(''PartNumber'', JNum (Fin 1)), (''ETag'', JStr ''etag-a'')],
           JObj [(''PartNumber'', JNum (Fin 1)), (''ETag'', JStr ''etag-a'')]]"

definition completion :: "(string \<times> jsval) list" where
  "completion =
     [(''uploadId'', JStr ''session-1''), (''complete'', JBool True), (''parts'', sample_parts)]"

section \<open>Properties\<close>

subsection \<open>One step of the loop\<close>

declare part_urls.simps [simp del]

lemma part_urls_stop:
  "\<not> js_le (Fin (of_int partNumber)) totalParts
   \<Longrightarrow> part_urls e fileName UploadId totalParts partNumber urls calls = (Inr urls, calls)"
  by (simp add: part_urls.simps [of e fileName UploadId totalParts partNumber urls calls])

lemma part_urls_rejected:
  "js_le (Fin (of_int partNumber)) totalParts
   \<Longrightarrow> getSignedUrl e calls (UploadPartCommand (BUCKET e) fileName UploadId partNumber) 3600 = Inl err
   \<Longrightarrow> part_urls e fileName UploadId totalParts partNumber urls calls =
       (Inl (CallRejected err),
        calls @ [GetSignedUrl (UploadPartCommand (BUCKET e) fileName UploadId partNumber) 3600])"
  by (simp add: part_urls.simps [of e fileName UploadId totalParts partNumber urls calls])

lemma part_urls_full:
  "js_le (Fin (of_int partNumber)) totalParts
   \<Longrightarrow> getSignedUrl e calls (UploadPartCommand (BUCKET e) fileName UploadId partNumber) 3600 = Inr url
   \<Longrightarrow> \<not> length urls < MAX_ARRAY_LENGTH
   \<Longrightarrow> part_urls e fileName UploadId totalParts partNumber urls calls =
       (Inl RangeError,
        calls @ [GetSignedUrl (UploadPartCommand (BUCKET e) fileName UploadId partNumber) 3600])"
  by (simp add: part_urls.simps [of e fileName UploadId totalParts partNumber urls calls])

lemma part_urls_step:
  "js_le (Fin (of_int partNumber)) totalParts
   \<Longrightarrow> getSignedUrl e calls (UploadPartCommand (BUCKET e) fileName UploadId partNumber) 3600 = Inr url
   \<Longrightarrow> length urls < MAX_ARRAY_LENGTH
   \<Longrightarrow> part_urls e fileName UploadId totalParts partNumber urls calls =
       part_urls e fileName UploadId totalParts (partNumber + 1) (urls @ [(partNumber, url)])
         (calls @ [GetSignedUrl (UploadPartCommand (BUCKET e) fileName UploadId partNumber) 3600])"
  by (simp add: part_urls.simps [of e fileName UploadId totalParts partNumber urls calls])

subsection \<open>The calls of a run\<close>

lemma trace_split:
  assumes "trace e calls r" and "calls = before @ c # after" and "rejection e before c = Some m"
  shows "after = [] \<and> r = Some m"
  using assms
proof (induction arbitrary: after rule: trace.induct)
  case trace_none
  then show ?case by simp
next
  case (trace_resolved calls c')
  show ?case
  proof (cases after rule: rev_cases)
    case Nil
    with trace_resolved.prems trace_resolved.hyps show ?thesis by simp
  next
    case (snoc after' x)
    with trace_resolved.prems have "calls = before @ c # after'" by simp
    from trace_resolved.IH [OF this trace_resolved.prems(2)] show ?thesis by simp
  qed
next
  case (trace_rejected calls c' m')
  show ?case
  proof (cases after rule: rev_cases)
    case Nil
    with trace_rejected.prems trace_rejected.hyps show ?thesis by simp
  next
    case (snoc after' x)
    with trace_rejected.prems have "calls = before @ c # after'" by simp
    from trace_rejected.IH [OF this trace_rejected.prems(2)] show ?thesis by simp
  qed
qed

lemma trace_Some_last:
  "trace e calls (Some m) \<Longrightarrow> \<exists>before c. calls = before @ [c] \<and> rejection e before c = Some m"
  by (erule trace.cases) auto

lemma trace_call:
  "trace e calls None \<Longrightarrow> trace e (calls @ [c]) (rejection e calls c)"
  by (cases "rejection e calls c") (auto intro: trace.intros)

lemma case_rejected_message [simp]: "(case err of Rejected m \<Rightarrow> f m) = f (message err)"
  by (cases err) simp

lemma outcome_Inl [simp]: "outcome (Inl (CallRejected err)) = Some (message err)"
  by (cases err) simp

lemma outcome_Inl_eq: "outcome (Inl err :: caught + 'a) = outcome (Inl err :: caught + 'b)"
  by (cases err) simp_all

lemma part_urls_trace:
  "trace e calls None \<Longrightarrow> part_urls e fileName UploadId totalParts partNumber urls calls = (res, calls')
   \<Longrightarrow> trace e calls' (outcome res)"
proof (induction e fileName UploadId totalParts partNumber urls calls rule: part_urls.induct)
  case (1 e fileName UploadId totalParts partNumber urls calls)
  let ?cmd = "UploadPartCommand (BUCKET e) fileName UploadId partNumber"
  show ?case
  proof (cases "js_le (Fin (of_int partNumber)) totalParts")
    case False
    with "1.prems" show ?thesis by (auto simp add: part_urls_stop)
  next
    case True
    show ?thesis
    proof (cases "getSignedUrl e calls ?cmd 3600")
      case (Inl err)
      then have "rejection e calls (GetSignedUrl ?cmd 3600) = Some (message err)" by simp
      with "1.prems"(1) have "trace e (calls @ [GetSignedUrl ?cmd 3600]) (Some (message err))"
        by (rule trace_rejected)
      with "1.prems"(2) True Inl show ?thesis by (auto simp add: part_urls_rejected)
    next
      case (Inr url)
      then have "rejection e calls (GetSignedUrl ?cmd 3600) = None" by simp
      with "1.prems"(1) have t: "trace e (calls @ [GetSignedUrl ?cmd 3600]) None"
        by (rule trace_resolved)
      show ?thesis
      proof (cases "length urls < MAX_ARRAY_LENGTH")
        case room: True
        from "1.prems"(2) True Inr room
        have "part_urls e fileName UploadId totalParts (partNumber + 1) (urls @ [(partNumber, url)])
                (calls @ [GetSignedUrl ?cmd 3600]) = (res, calls')"
          by (simp add: part_urls_step)
        from "1.IH" [OF True refl Inr room t this] show ?thesis .
      next
        case False
        with "1.prems"(2) True Inr t show ?thesis by (auto simp add: part_urls_full)
      qed
    qed
  qed
qed

lemma getPresignedUrl_trace:
  assumes "getPresignedUrl e fileName contentType [] = (res, calls)"
  shows "trace e calls (outcome res)"
proof -
  let ?c = "GetSignedUrl (PutObjectCommand (BUCKET e) fileName contentType) 900"
  have t: "trace e ([] @ [?c]) (rejection e [] ?c)"
    by (rule trace_call) (rule trace_none)
  show ?thesis
  proof (cases "getSignedUrl e [] (PutObjectCommand (BUCKET e) fileName contentType) 900")
    case (Inl err)
    with assms have "res = Inl (CallRejected err)" "calls = [?c]"
      by (simp_all add: getPresignedUrl_def)
    with t Inl show ?thesis by simp
  next
    case (Inr url)
    with assms have "outcome res = None" "calls = [?c]"
      by (auto simp add: getPresignedUrl_def)
    with t Inr show ?thesis by simp
  qed
qed

lemma completeMultipart_trace:
  assumes "completeMultipart e fileName uploadId parts [] = (res, calls)"
  shows "trace e calls (outcome res)"
proof -
  let ?c = "Send (CompleteMultipartUploadCommand (BUCKET e) fileName uploadId parts)"
  have t: "trace e ([] @ [?c]) (rejection e [] ?c)"
    by (rule trace_call) (rule trace_none)
  show ?thesis
  proof (cases "send e [] (CompleteMultipartUploadCommand (BUCKET e) fileName uploadId parts)")
    case (Inl err)
    with assms have "res = Inl (CallRejected err)" "calls = [?c]"
      by (simp_all add: completeMultipart_def)
    with t Inl show ?thesis by simp
  next
    case (Inr out)
    with assms have "outcome res = None" "calls = [?c]"
      by (auto simp add: completeMultipart_def)
    with t Inr show ?thesis by simp
  qed
qed

lemma startMultipart_trace:
  assumes "startMultipart e fileName contentType fileSize [] = (res, calls)"
  shows "trace e calls (outcome res)"
proof -
  let ?create = "CreateMultipartUploadCommand (BUCKET e) fileName contentType"
  have t: "trace e ([] @ [Send ?create]) (rejection e [] (Send ?create))"
    by (rule trace_call) (rule trace_none)
  show ?thesis
  proof (cases "send e [] ?create")
    case (Inl err)
    with assms have "res = Inl (CallRejected err)" "calls = [Send ?create]"
      by (simp_all add: startMultipart_def)
    with t Inl show ?thesis by simp
  next
    case (Inr out)
    let ?loop = "part_urls e fileName (read_prop out ''UploadId'')
        (Math_ceil (js_div (to_number e fileSize) (Fin SINGLE_UPLOAD_LIMIT))) 1 [] [Send ?create]"
    obtain r calls' where loop: "?loop = (r, calls')"
      by (cases ?loop)
    from t Inr have "trace e [Send ?create] None" by simp
    from part_urls_trace [OF this loop] have tr: "trace e calls' (outcome r)" .
    from assms Inr loop have "calls = calls'" "outcome res = outcome r"
      by (auto simp add: startMultipart_def Let_def split: sum.splits intro: outcome_Inl_eq)
    with tr show ?thesis by simp
  qed
qed

lemma dispatch_trace:
  assumes "dispatch e fileName contentType fileSize uploadId complete' parts = (res, calls)"
  shows "trace e calls (outcome res)"
proof -
  have none: "trace e [] (outcome (Inr r))" for r :: response
    by (simp add: trace_none)
  have lift: "trace e calls (outcome res)"
    if "f = (r, calls)" "trace e calls (outcome r)"
       "(case f of (Inl err, calls) \<Rightarrow> (Inl err, calls)
         | (Inr response, calls) \<Rightarrow> (Inr (formatResponse 200 response), calls)) = (res, calls)"
    for f :: "(caught + response_body) \<times> s3_call list" and r
  proof (cases r)
    case (Inl err)
    with that show ?thesis by (cases err) auto
  next
    case (Inr x)
    with that show ?thesis by auto
  qed
  show ?thesis
  proof (cases "chooseUploadType e fileSize = ''single''")
    case True
    obtain r c where f: "getPresignedUrl e fileName contentType [] = (r, c)"
      by (cases "getPresignedUrl e fileName contentType []")
    with assms True have "c = calls" by (auto simp add: dispatch_def split: sum.splits)
    with f assms True getPresignedUrl_trace [OF f] show ?thesis
      by (intro lift [of "getPresignedUrl e fileName contentType []" r]) (simp_all add: dispatch_def)
  next
    case False
    note single = False
    show ?thesis
    proof (cases "chooseUploadType e fileSize = ''multipart''")
      case False
      with single assms none show ?thesis by (auto simp add: dispatch_def)
    next
      case True
      note multipart = True
      show ?thesis
      proof (cases "truthy uploadId")
        case False
        obtain r c where f: "startMultipart e fileName contentType fileSize [] = (r, c)"
          by (cases "startMultipart e fileName contentType fileSize []")
        with assms single multipart False have "c = calls"
          by (auto simp add: dispatch_def split: sum.splits)
        with f assms single multipart False startMultipart_trace [OF f] show ?thesis
          by (intro lift [of "startMultipart e fileName contentType fileSize []" r])
             (simp_all add: dispatch_def)
      next
        case True
        show ?thesis
        proof (cases "truthy complete' \<and> truthy parts")
          case False
          with True single multipart assms none show ?thesis by (auto simp add: dispatch_def)
        next
          case both: True
          obtain r c where f: "completeMultipart e fileName uploadId parts [] = (r, c)"
            by (cases "completeMultipart e fileName uploadId parts []")
          with assms single multipart True both have "c = calls"
            by (auto simp add: dispatch_def split: sum.splits)
          with f assms single multipart True both completeMultipart_trace [OF f] show ?thesis
            by (intro lift [of "completeMultipart e fileName uploadId parts []" r])
               (simp_all add: dispatch_def)
        qed
      qed
    qed
  qed
qed

lemma handle_body_trace:
  assumes "handle_body e b = (res, calls)"
  shows "(\<exists>m. trace e calls (Some m) \<and> res = Inr (formatResponse 500 (ErrorResponse m)))
         \<or> trace e calls None"
proof (cases "b = JNull \<or> b = JUndefined \<or> \<not> truthy (get_field b ''fileName'')
    \<or> \<not> truthy (get_field b ''contentType'') \<or> \<not> truthy (get_field b ''fileSize'')")
  case True
  with assms have "calls = []"
    by (auto simp add: handle_body_def Let_def split: if_splits)
  then show ?thesis by (simp add: trace_none)
next
  case False
  let ?d = "dispatch e (get_field b ''fileName'') (get_field b ''contentType'')
      (get_field b ''fileSize'') (get_field b ''uploadId'') (get_field b ''complete'')
      (get_field b ''parts'')"
  obtain r c where d: "?d = (r, c)" by (cases ?d)
  from dispatch_trace [OF d] have t: "trace e c (outcome r)" .
  show ?thesis
  proof (cases r)
    case (Inl err)
    with assms False d have "calls = c"
      "res = Inr (formatResponse 500 (ErrorResponse (err_message e err)))"
      by (simp_all add: handle_body_def Let_def)
    with t Inl show ?thesis by (cases err) auto
  next
    case (Inr x)
    with assms False d have "calls = c"
      by (simp add: handle_body_def Let_def)
    with t Inr show ?thesis by simp
  qed
qed

lemma handler_trace:
  assumes "handler e ev = (res, calls)"
  shows "(\<exists>m. trace e calls (Some m) \<and> res = Inr (formatResponse 500 (ErrorResponse m)))
         \<or> trace e calls None"
proof (cases ev)
  case NoBody
  with assms show ?thesis by (simp add: handler_def handle_body_trace)
next
  case Unparseable
  with assms have "calls = []" by (auto simp add: handler_def)
  then show ?thesis by (simp add: trace_none)
next
  case (Parsed v)
  with assms show ?thesis by (simp add: handler_def handle_body_trace)
qed

subsection \<open>The results of a run\<close>

lemma part_urls_Inr:
  "part_urls e fileName UploadId totalParts partNumber urls calls = (Inr urls', calls')
   \<Longrightarrow> \<exists>new. urls' = urls @ new \<and> calls' = calls @ map (part_call e fileName UploadId) new
         \<and> signed_parts e fileName UploadId calls new
         \<and> (\<forall>t. totalParts = Fin (of_int t) \<longrightarrow> map fst new = [partNumber..t])"
proof (induction e fileName UploadId totalParts partNumber urls calls rule: part_urls.induct)
  case (1 e fileName UploadId totalParts partNumber urls calls)
  let ?cmd = "UploadPartCommand (BUCKET e) fileName UploadId partNumber"
  show ?case
  proof (cases "js_le (Fin (of_int partNumber)) totalParts")
    case False
    with "1.prems" have "urls' = urls" "calls' = calls" by (simp_all add: part_urls_stop)
    moreover from False have "\<forall>t. totalParts = Fin (of_int t) \<longrightarrow> [partNumber..t] = []"
      by auto
    ultimately show ?thesis by simp
  next
    case True
    show ?thesis
    proof (cases "getSignedUrl e calls ?cmd 3600")
      case (Inl err)
      with "1.prems" True show ?thesis by (simp add: part_urls_rejected)
    next
      case (Inr url)
      have room: "length urls < MAX_ARRAY_LENGTH"
      proof (rule ccontr)
        assume "\<not> length urls < MAX_ARRAY_LENGTH"
        with "1.prems" True Inr show False by (simp add: part_urls_full)
      qed
      from "1.prems" True Inr room
      have "part_urls e fileName UploadId totalParts (partNumber + 1) (urls @ [(partNumber, url)])
              (calls @ [GetSignedUrl ?cmd 3600]) = (Inr urls', calls')"
        by (simp add: part_urls_step)
      from "1.IH" [OF True refl Inr room this] obtain new where new:
        "urls' = (urls @ [(partNumber, url)]) @ new"
        "calls' = (calls @ [GetSignedUrl ?cmd 3600]) @ map (part_call e fileName UploadId) new"
        "signed_parts e fileName UploadId (calls @ [GetSignedUrl ?cmd 3600]) new"
        "\<forall>t. totalParts = Fin (of_int t) \<longrightarrow> map fst new = [partNumber + 1..t]"
        by blast
      have "\<forall>t. totalParts = Fin (of_int t) \<longrightarrow> map fst ((partNumber, url) # new) = [partNumber..t]"
      proof (intro allI impI)
        fix t assume t: "totalParts = Fin (of_int t)"
        with True have "partNumber \<le> t" by simp
        then have "[partNumber..t] = partNumber # [partNumber + 1..t]" by (rule upto_rec1)
        with new(4) t show "map fst ((partNumber, url) # new) = [partNumber..t]" by simp
      qed
      with new(1-3) Inr show ?thesis
        by (intro exI [of _ "(partNumber, url) # new"]) (simp add: part_call_def)
    qed
  qed
qed

lemma part_urls_length:
  "part_urls e fileName UploadId totalParts partNumber urls calls = (Inr urls', calls')
   \<Longrightarrow> length urls \<le> MAX_ARRAY_LENGTH \<Longrightarrow> length urls' \<le> MAX_ARRAY_LENGTH"
proof (induction e fileName UploadId totalParts partNumber urls calls rule: part_urls.induct)
  case (1 e fileName UploadId totalParts partNumber urls calls)
  let ?cmd = "UploadPartCommand (BUCKET e) fileName UploadId partNumber"
  show ?case
  proof (cases "js_le (Fin (of_int partNumber)) totalParts")
    case False
    with "1.prems" show ?thesis by (simp add: part_urls_stop)
  next
    case True
    show ?thesis
    proof (cases "getSignedUrl e calls ?cmd 3600")
      case (Inl err)
      with "1.prems" True show ?thesis by (simp add: part_urls_rejected)
    next
      case (Inr url)
      show ?thesis
      proof (cases "length urls < MAX_ARRAY_LENGTH")
        case room: True
        from "1.prems"(1) True Inr room
        have "part_urls e fileName UploadId totalParts (partNumber + 1) (urls @ [(partNumber, url)])
                (calls @ [GetSignedUrl ?cmd 3600]) = (Inr urls', calls')"
          by (simp add: part_urls_step)
        moreover from room have "length (urls @ [(partNumber, url)]) \<le> MAX_ARRAY_LENGTH"
          by simp
        ultimately show ?thesis by (rule "1.IH" [OF True refl Inr room])
      next
        case False
        with "1.prems" True Inr show ?thesis by (simp add: part_urls_full)
      qed
    qed
  qed
qed

text \<open>
  The push throws only when the counter, which is one more than the number of entries,
  has reached \<open>2 ^ 32\<close> and is still within \<open>totalParts\<close>.
\<close>

lemma part_urls_RangeError:
  "part_urls e fileName UploadId (Fin (of_int t)) partNumber urls calls = (Inl RangeError, calls')
   \<Longrightarrow> int (length urls) = partNumber - 1 \<Longrightarrow> 2 ^ 32 \<le> t"
proof (induction e fileName UploadId "Fin (of_int t)" partNumber urls calls rule: part_urls.induct)
  case (1 e fileName UploadId partNumber urls calls)
  let ?cmd = "UploadPartCommand (BUCKET e) fileName UploadId partNumber"
  show ?case
  proof (cases "js_le (Fin (of_int partNumber)) (Fin (of_int t))")
    case False
    with "1.prems" show ?thesis by (simp add: part_urls_stop)
  next
    case True
    then have le: "partNumber \<le> t" by simp
    show ?thesis
    proof (cases "getSignedUrl e calls ?cmd 3600")
      case (Inl err)
      with "1.prems" True show ?thesis by (simp add: part_urls_rejected)
    next
      case (Inr url)
      show ?thesis
      proof (cases "length urls < MAX_ARRAY_LENGTH")
        case room: True
        from "1.prems"(1) True Inr room
        have "part_urls e fileName UploadId (Fin (of_int t)) (partNumber + 1)
                (urls @ [(partNumber, url)]) (calls @ [GetSignedUrl ?cmd 3600])
              = (Inl RangeError, calls')"
          by (simp add: part_urls_step)
        moreover from "1.prems"(2) have "int (length (urls @ [(partNumber, url)])) = partNumber + 1 - 1"
          by simp
        ultimately show ?thesis by (rule "1.hyps" [OF True refl Inr room])
      next
        case False
        then have "2 ^ 32 - 1 \<le> int (length urls)"
          by (simp add: MAX_ARRAY_LENGTH_def)
        with "1.prems"(2) le show ?thesis by simp
      qed
    qed
  qed
qed

lemma startMultipart_Inr:
  assumes "startMultipart e fileName contentType fileSize [] = (Inr plan, calls)"
  shows "\<exists>out urls.
           send e [] (CreateMultipartUploadCommand (BUCKET e) fileName contentType) = Inr out
         \<and> plan = MultipartStartPlan fileName contentType (read_prop out ''UploadId'')
              (Math_ceil (js_div (to_number e fileSize) (Fin SINGLE_UPLOAD_LIMIT))) urls
         \<and> calls = Send (CreateMultipartUploadCommand (BUCKET e) fileName contentType)
              # map (part_call e fileName (read_prop out ''UploadId'')) urls
         \<and> signed_parts e fileName (read_prop out ''UploadId'')
              [Send (CreateMultipartUploadCommand (BUCKET e) fileName contentType)] urls
         \<and> (\<forall>t. Math_ceil (js_div (to_number e fileSize) (Fin SINGLE_UPLOAD_LIMIT)) = Fin (of_int t)
                \<longrightarrow> map fst urls = [1..t])
         \<and> length urls \<le> MAX_ARRAY_LENGTH"
proof -
  let ?create = "CreateMultipartUploadCommand (BUCKET e) fileName contentType"
  let ?tp = "Math_ceil (js_div (to_number e fileSize) (Fin SINGLE_UPLOAD_LIMIT))"
  from assms obtain out where out: "send e [] ?create = Inr out"
    by (cases "send e [] ?create") (simp_all add: startMultipart_def)
  let ?uid = "read_prop out ''UploadId''"
  from assms out obtain urls where
    loop: "part_urls e fileName ?uid ?tp 1 [] [Send ?create] = (Inr urls, calls)"
    and plan: "plan = MultipartStartPlan fileName contentType ?uid ?tp urls"
    by (auto simp add: startMultipart_def Let_def split: prod.splits sum.splits)
  from part_urls_length [OF loop] have "length urls \<le> MAX_ARRAY_LENGTH" by simp
  with part_urls_Inr [OF loop] plan out show ?thesis
    by auto
qed

lemma startMultipart_RangeError:
  assumes "startMultipart e fileName contentType fileSize [] = (Inl RangeError, calls)"
    and "Math_ceil (js_div (to_number e fileSize) (Fin SINGLE_UPLOAD_LIMIT)) = Fin (of_int t)"
  shows "2 ^ 32 \<le> t"
proof -
  let ?create = "CreateMultipartUploadCommand (BUCKET e) fileName contentType"
  from assms(1) obtain out where out: "send e [] ?create = Inr out"
    by (cases "send e [] ?create") (simp_all add: startMultipart_def)
  from assms out
  have "part_urls e fileName (read_prop out ''UploadId'') (Fin (of_int t)) 1 [] [Send ?create]
          = (Inl RangeError, calls)"
    by (auto simp add: startMultipart_def Let_def split: prod.splits sum.splits)
  from part_urls_RangeError [OF this] show ?thesis by simp
qed

lemma getPresignedUrl_Inr:
  "getPresignedUrl e fileName contentType [] = (Inr plan, calls)
   \<Longrightarrow> \<exists>url. plan = SingleUploadPlan fileName contentType url
         \<and> getSignedUrl e [] (PutObjectCommand (BUCKET e) fileName contentType) 900 = Inr url
         \<and> calls = [GetSignedUrl (PutObjectCommand (BUCKET e) fileName contentType) 900]"
  by (auto simp add: getPresignedUrl_def Let_def split: sum.splits)

lemma completeMultipart_Inr:
  "completeMultipart e fileName uploadId parts [] = (Inr plan, calls)
   \<Longrightarrow> \<exists>result. plan = MultipartCompleteResult fileName result"
  by (auto simp add: completeMultipart_def Let_def split: sum.splits)

lemma dispatch_Inr:
  assumes "dispatch e fileName contentType fileSize uploadId complete' parts = (Inr r, calls)"
  shows "(\<exists>m. body r = ErrorResponse m)
       \<or> (\<exists>fn result. body r = MultipartCompleteResult fn result)
       \<or> (\<exists>url. body r = SingleUploadPlan fileName contentType url
            \<and> getSignedUrl e [] (PutObjectCommand (BUCKET e) fileName contentType) 900 = Inr url
            \<and> calls = [GetSignedUrl (PutObjectCommand (BUCKET e) fileName contentType) 900])
       \<or> (\<exists>uid tp urls. body r = MultipartStartPlan fileName contentType uid tp urls
            \<and> calls = Send (CreateMultipartUploadCommand (BUCKET e) fileName contentType)
                # map (part_call e fileName uid) urls
            \<and> signed_parts e fileName uid
                [Send (CreateMultipartUploadCommand (BUCKET e) fileName contentType)] urls)"
proof -
  consider (single) plan where "getPresignedUrl e fileName contentType [] = (Inr plan, calls)"
      "r = formatResponse 200 plan"
    | (start) plan where "startMultipart e fileName contentType fileSize [] = (Inr plan, calls)"
      "r = formatResponse 200 plan"
    | (complete) plan where "completeMultipart e fileName uploadId parts [] = (Inr plan, calls)"
      "r = formatResponse 200 plan"
    | (invalid) m where "r = formatResponse 400 (ErrorResponse m)"
    using assms by (auto simp add: dispatch_def Let_def split: if_splits prod.splits sum.splits)
  then show ?thesis
  proof cases
    case single
    from getPresignedUrl_Inr [OF single(1)] single(2) show ?thesis
      by (auto simp add: formatResponse_def)
  next
    case start
    from startMultipart_Inr [OF start(1)] start(2) show ?thesis
      by (auto simp add: formatResponse_def)
  next
    case complete
    from completeMultipart_Inr [OF complete(1)] complete(2) show ?thesis
      by (auto simp add: formatResponse_def)
  next
    case invalid
    then show ?thesis by (simp add: formatResponse_def)
  qed
qed

lemma handle_body_Inr:
  assumes "handle_body e b = (Inr r, calls)"
  shows "(\<exists>m. body r = ErrorResponse m)
       \<or> (\<exists>fn result. body r = MultipartCompleteResult fn result)
       \<or> (\<exists>fn ct url. body r = SingleUploadPlan fn ct url
            \<and> getSignedUrl e [] (PutObjectCommand (BUCKET e) fn ct) 900 = Inr url
            \<and> calls = [GetSignedUrl (PutObjectCommand (BUCKET e) fn ct) 900])
       \<or> (\<exists>fn ct uid tp urls. body r = MultipartStartPlan fn ct uid tp urls
            \<and> calls = Send (CreateMultipartUploadCommand (BUCKET e) fn ct)
                # map (part_call e fn uid) urls
            \<and> signed_parts e fn uid [Send (CreateMultipartUploadCommand (BUCKET e) fn ct)] urls)"
proof -
  let ?d = "dispatch e (get_field b ''fileName'') (get_field b ''contentType'')
      (get_field b ''fileSize'') (get_field b ''uploadId'') (get_field b ''complete'')
      (get_field b ''parts'')"
  consider (error) m where "r = formatResponse 400 (ErrorResponse m)"
    | (rejected) m where "r = formatResponse 500 (ErrorResponse m)"
    | (dispatched) "?d = (Inr r, calls)"
    using assms
    by (auto simp add: handle_body_def Let_def split: if_splits prod.splits sum.splits)
  then show ?thesis
  proof cases
    case error
    then show ?thesis by (simp add: formatResponse_def)
  next
    case rejected
    then show ?thesis by (simp add: formatResponse_def)
  next
    case dispatched
    from dispatch_Inr [OF this] show ?thesis by blast
  qed
qed

lemma dispatch_response:
  assumes "dispatch e fileName contentType fileSize uploadId complete' parts = (Inr r, calls)"
  shows "headers r = [(''Content-Type'', ''application/json'')]
       \<and> (statusCode r = 200 \<and> (\<forall>m. body r \<noteq> ErrorResponse m)
          \<or> statusCode r = 400 \<and> (\<exists>m. body r = ErrorResponse m))"
proof -
  consider (single) plan where "getPresignedUrl e fileName contentType [] = (Inr plan, calls)"
      "r = formatResponse 200 plan"
    | (start) plan where "startMultipart e fileName contentType fileSize [] = (Inr plan, calls)"
      "r = formatResponse 200 plan"
    | (complete) plan where "completeMultipart e fileName uploadId parts [] = (Inr plan, calls)"
      "r = formatResponse 200 plan"
    | (invalid) m where "r = formatResponse 400 (ErrorResponse m)"
    using assms by (auto simp add: dispatch_def Let_def split: if_splits prod.splits sum.splits)
  then show ?thesis
  proof cases
    case single
    from getPresignedUrl_Inr [OF single(1)] single(2) show ?thesis
      by (auto simp add: formatResponse_def)
  next
    case start
    from startMultipart_Inr [OF start(1)] start(2) show ?thesis
      by (auto simp add: formatResponse_def)
  next
    case complete
    from completeMultipart_Inr [OF complete(1)] complete(2) show ?thesis
      by (auto simp add: formatResponse_def)
  next
    case invalid
    then show ?thesis by (simp add: formatResponse_def)
  qed
qed

subsection \<open>A request that passes the first check\<close>

lemma chooseUploadType_multipart:
  "SINGLE_UPLOAD_LIMIT < n \<Longrightarrow> chooseUploadType e (JNum (Fin n)) = ''multipart''"
  by (simp add: chooseUploadType_def to_number_def SINGLE_UPLOAD_LIMIT_def)

lemma chooseUploadType_single:
  "n \<le> SINGLE_UPLOAD_LIMIT \<Longrightarrow> chooseUploadType e (JNum (Fin n)) = ''single''"
  by (simp add: chooseUploadType_def to_number_def)

lemma truthy_big: "SINGLE_UPLOAD_LIMIT < n \<Longrightarrow> truthy (JNum (Fin n))"
  by (simp add: SINGLE_UPLOAD_LIMIT_def)

lemma handle_body_valid:
  assumes "truthy (get_field b ''fileName'')" "truthy (get_field b ''contentType'')"
    and "truthy (get_field b ''fileSize'')"
  shows "handle_body e b =
     (case dispatch e (get_field b ''fileName'') (get_field b ''contentType'')
        (get_field b ''fileSize'') (get_field b ''uploadId'') (get_field b ''complete'')
        (get_field b ''parts'') of
        (Inl err, calls) \<Rightarrow>
          (Inr (formatResponse 500 (ErrorResponse (err_message e err))), calls)
      | (Inr response, calls) \<Rightarrow> (Inr response, calls))"
proof -
  from assms(1) have "b \<noteq> JNull" "b \<noteq> JUndefined" by auto
  with assms show ?thesis
    by (auto simp add: handle_body_def Let_def split: prod.splits sum.splits)
qed

subsection \<open>An infinite size\<close>

text \<open>
  \<^verbatim>\<open>JSON.parse\<close> reads a number beyond the doubles, such as \<^verbatim>\<open>1e999\<close>, as \<open>Infinity\<close>. It
  passes the check of line 29 and is classified as a multipart upload; \<open>totalParts\<close> is
  infinite, every round of the loop goes on, and the loop ends with an error: of a call, or
  of the push that \<open>urls\<close> has no room for. No plan is returned.
\<close>

lemma chooseUploadType_PosInfinity:
  "chooseUploadType e (JNum PosInfinity) = ''multipart''"
  by (simp add: chooseUploadType_def to_number_def)

lemma part_urls_PosInfinity:
  "part_urls e fileName UploadId PosInfinity partNumber urls calls \<noteq> (Inr urls', calls')"
proof (induction e fileName UploadId PosInfinity partNumber urls calls rule: part_urls.induct)
  case (1 e fileName UploadId partNumber urls calls)
  let ?cmd = "UploadPartCommand (BUCKET e) fileName UploadId partNumber"
  have on: "js_le (Fin (of_int partNumber)) PosInfinity" by simp
  show ?case
  proof (cases "getSignedUrl e calls ?cmd 3600")
    case (Inl err)
    with on show ?thesis by (simp add: part_urls_rejected)
  next
    case (Inr url)
    show ?thesis
    proof (cases "length urls < MAX_ARRAY_LENGTH")
      case True
      with "1.hyps" [OF on refl Inr True] on Inr show ?thesis by (simp add: part_urls_step)
    next
      case False
      with on Inr show ?thesis by (simp add: part_urls_full)
    qed
  qed
qed

lemma startMultipart_PosInfinity:
  "startMultipart e fileName contentType (JNum PosInfinity) [] \<noteq> (Inr plan, calls)"
  using part_urls_PosInfinity [of e fileName]
  by (auto simp add: startMultipart_def Let_def to_number_def SINGLE_UPLOAD_LIMIT_def
      split: sum.splits prod.splits)

lemma infinite_fileSize_500:
  assumes "truthy (get_field b ''fileName'')" "truthy (get_field b ''contentType'')"
    and "get_field b ''fileSize'' = JNum PosInfinity"
    and "\<not> truthy (get_field b ''uploadId'')"
  shows "\<exists>m calls. handler e (Parsed b) = (Inr (formatResponse 500 (ErrorResponse m)), calls)"
proof -
  let ?s = "startMultipart e (get_field b ''fileName'') (get_field b ''contentType'')
      (JNum PosInfinity) []"
  obtain r calls where s: "?s = (r, calls)" by (cases ?s)
  with startMultipart_PosInfinity [of e _ _ _ calls] obtain err where "r = Inl err"
    by (cases r) auto
  with s assms chooseUploadType_PosInfinity [of e] show ?thesis
    by (auto simp add: handler_def handle_body_valid dispatch_def)
qed

text \<open>
  The equations that evaluate the handler on a given request.
\<close>

lemmas run_simps =
  handler_def handle_body_def dispatch_def chooseUploadType_def to_number_def
  SINGLE_UPLOAD_LIMIT_def startMultipart_def getPresignedUrl_def completeMultipart_def
  formatResponse_def read_prop_def request_def Let_def MAX_ARRAY_LENGTH_def part_urls_step
  part_urls_stop part_urls_rejected

section \<open>The claims\<close>

text \<open>
  The theorems state the tests of the code as they are, on the truth value of a field:
  \<open>undefined\<close> (what a field that is absent reads as), \<open>null\<close>, \<open>false\<close>, \<open>0\<close> and the
  empty string are falsy, every other value is truthy. Numbers are exact, as said at the
  start.
\<close>

text \<open>
  C1. The classification is a function of \<open>fileSize\<close> alone, with the limit
  \<open>5 * 1024 * 1024 = 5242880\<close>: \<open>chooseUploadType\<close> answers \<^verbatim>\<open>"single"\<close> when \<open>fileSize\<close> is
  absent (\<open>undefined\<close> or \<open>null\<close>), zero, or a number at most the limit, and
  \<^verbatim>\<open>"multipart"\<close> when it is a number above the limit; on a number the answer does not
  depend on the environment.
\<close>

theorem chooseUploadType_by_fileSize:
  "SINGLE_UPLOAD_LIMIT = 5242880
   \<and> chooseUploadType e JUndefined = ''single''
   \<and> chooseUploadType e JNull = ''single''
   \<and> chooseUploadType e (JNum (Fin 0)) = ''single''
   \<and> (\<forall>n. n \<le> SINGLE_UPLOAD_LIMIT \<longrightarrow> chooseUploadType e (JNum (Fin n)) = ''single'')
   \<and> (\<forall>n. SINGLE_UPLOAD_LIMIT < n \<longrightarrow> chooseUploadType e (JNum (Fin n)) = ''multipart'')
   \<and> (\<forall>e' x. chooseUploadType e' (JNum x) = chooseUploadType e (JNum x))"
  by (simp add: chooseUploadType_def to_number_def SINGLE_UPLOAD_LIMIT_def)

theorem chooseUploadType_by_fileSize_witness:
  "(1048576::rat) \<le> SINGLE_UPLOAD_LIMIT
   \<and> chooseUploadType sample_env (JNum (Fin 1048576)) = ''single''
   \<and> SINGLE_UPLOAD_LIMIT < (12582912::rat)
   \<and> chooseUploadType sample_env (JNum (Fin 12582912)) = ''multipart''"
proof -
  have le: "(1048576::rat) \<le> SINGLE_UPLOAD_LIMIT" and gt: "SINGLE_UPLOAD_LIMIT < (12582912::rat)"
    by (simp_all add: SINGLE_UPLOAD_LIMIT_def)
  with chooseUploadType_by_fileSize [of sample_env] show ?thesis
    by blast
qed

text \<open>
  C2. A request that starts a multipart upload (\<open>fileName\<close> and \<open>contentType\<close> truthy,
  \<open>fileSize\<close> a number above the limit, \<open>uploadId\<close> absent or falsy) is answered in one of
  three ways. With status 200 and a plan whose \<open>totalParts\<close> is the ceiling of
  \<open>fileSize / SINGLE_UPLOAD_LIMIT\<close> and whose \<open>urls\<close> has exactly that many entries, fewer
  than \<open>2 ^ 32\<close>, with the part numbers \<open>1, 2, \<dots>, totalParts\<close> in this order. Or with
  status 500 and the message of a rejection, and then the last call made was rejected. Or
  with status 500 and the message of the \<open>RangeError\<close>, and then the ceiling is \<open>2 ^ 32\<close> or
  more: that many entries do not fit in \<open>urls\<close>. So a plan that is returned is as the first
  case says, and one is returned whenever the parts are fewer than \<open>2 ^ 32\<close> and no call is
  rejected.
\<close>

theorem multipart_start_plan:
  assumes fileName: "truthy (get_field b ''fileName'')"
    and contentType: "truthy (get_field b ''contentType'')"
    and fileSize: "get_field b ''fileSize'' = JNum (Fin n)"
    and big: "SINGLE_UPLOAD_LIMIT < n"
    and uploadId: "\<not> truthy (get_field b ''uploadId'')"
  shows "(\<exists>uploadId urls calls.
            handler e (Parsed b) =
              (Inr \<lparr>statusCode = 200, headers = [(''Content-Type'', ''application/json'')],
                    body = MultipartStartPlan (get_field b ''fileName'') (get_field b ''contentType'')
                      uploadId (Fin (of_int \<lceil>n / SINGLE_UPLOAD_LIMIT\<rceil>)) urls\<rparr>, calls)
          \<and> int (length urls) = \<lceil>n / SINGLE_UPLOAD_LIMIT\<rceil>
          \<and> map fst urls = [1..\<lceil>n / SINGLE_UPLOAD_LIMIT\<rceil>]
          \<and> \<lceil>n / SINGLE_UPLOAD_LIMIT\<rceil> < 2 ^ 32)
       \<or> (\<exists>m before c.
            handler e (Parsed b) =
              (Inr \<lparr>statusCode = 500, headers = [(''Content-Type'', ''application/json'')],
                    body = ErrorResponse m\<rparr>, before @ [c])
          \<and> rejection e before c = Some m)
       \<or> (\<exists>calls.
            handler e (Parsed b) =
              (Inr \<lparr>statusCode = 500, headers = [(''Content-Type'', ''application/json'')],
                    body = ErrorResponse (array_length_message e)\<rparr>, calls)
          \<and> 2 ^ 32 \<le> \<lceil>n / SINGLE_UPLOAD_LIMIT\<rceil>)"
proof -
  let ?fn = "get_field b ''fileName''" and ?ct = "get_field b ''contentType''"
  let ?T = "\<lceil>n / SINGLE_UPLOAD_LIMIT\<rceil>"
  let ?s = "startMultipart e ?fn ?ct (JNum (Fin n)) []"
  have tp: "Math_ceil (js_div (to_number e (JNum (Fin n))) (Fin SINGLE_UPLOAD_LIMIT)) = Fin (of_int ?T)"
    by (simp add: to_number_def SINGLE_UPLOAD_LIMIT_def)
  have "0 < ?T" using big by (simp add: SINGLE_UPLOAD_LIMIT_def)
  obtain r calls where s: "?s = (r, calls)" by (cases ?s)
  have d: "dispatch e ?fn ?ct (JNum (Fin n)) (get_field b ''uploadId'') (get_field b ''complete'')
      (get_field b ''parts'') =
      (case ?s of (Inl err, calls) \<Rightarrow> (Inl err, calls)
       | (Inr response, calls) \<Rightarrow> (Inr (formatResponse 200 response), calls))"
    using uploadId chooseUploadType_multipart [OF big, of e] by (simp add: dispatch_def)
  have h: "handler e (Parsed b) =
      (case ?s of
         (Inl err, calls) \<Rightarrow> (Inr (formatResponse 500 (ErrorResponse (err_message e err))), calls)
       | (Inr response, calls) \<Rightarrow> (Inr (formatResponse 200 response), calls))"
    using fileName contentType fileSize truthy_big [OF big] d
    by (simp add: handler_def handle_body_valid split: prod.splits sum.splits)
  show ?thesis
  proof (cases r)
    case (Inl err)
    show ?thesis
    proof (cases err)
      case (CallRejected x)
      with startMultipart_trace [OF s] Inl have "trace e calls (Some (message x))" by simp
      from trace_Some_last [OF this] obtain before c where
        "calls = before @ [c]" "rejection e before c = Some (message x)" by blast
      with h s Inl CallRejected show ?thesis by (auto simp add: formatResponse_def)
    next
      case RangeError
      with s Inl have "?s = (Inl RangeError, calls)" by simp
      from startMultipart_RangeError [OF this tp] have "2 ^ 32 \<le> ?T" .
      with h s Inl RangeError show ?thesis by (auto simp add: formatResponse_def)
    qed
  next
    case (Inr plan)
    with s have "?s = (Inr plan, calls)" by simp
    from startMultipart_Inr [OF this] tp obtain out urls where
      plan: "plan = MultipartStartPlan ?fn ?ct (read_prop out ''UploadId'') (Fin (of_int ?T)) urls"
      and urls: "map fst urls = [1..?T]"
      and fits: "length urls \<le> MAX_ARRAY_LENGTH"
      by auto
    from urls have "length urls = length [1..?T]" by (metis length_map)
    with \<open>0 < ?T\<close> have len: "int (length urls) = ?T" by simp
    from fits have "int (length urls) < 2 ^ 32" by (simp add: MAX_ARRAY_LENGTH_def)
    then have "?T < 2 ^ 32" unfolding len .
    with h s Inr plan urls len show ?thesis by (simp add: formatResponse_def)
  qed
qed

theorem multipart_start_plan_witness:
  "truthy (get_field (request 12582912 []) ''fileName'')
   \<and> truthy (get_field (request 12582912 []) ''contentType'')
   \<and> get_field (request 12582912 []) ''fileSize'' = JNum (Fin 12582912)
   \<and> SINGLE_UPLOAD_LIMIT < 12582912
   \<and> \<not> truthy (get_field (request 12582912 []) ''uploadId'')
   \<and> fst (handler sample_env (Parsed (request 12582912 []))) =
       Inr \<lparr>statusCode = 200, headers = [(''Content-Type'', ''application/json'')],
            body = MultipartStartPlan (JStr ''a.bin'') (JStr ''application/octet-stream'')
              (JStr ''session-1'') (Fin 3)
              [(1, ''https://signed''), (2, ''https://signed''), (3, ''https://signed'')]\<rparr>
   \<and> SINGLE_UPLOAD_LIMIT < 18014398509481984 * 5242880
   \<and> fst (handler sample_env (Parsed (request (18014398509481984 * 5242880) []))) =
       Inr \<lparr>statusCode = 500, headers = [(''Content-Type'', ''application/json'')],
            body = ErrorResponse ''Invalid array length''\<rparr>"
proof -
  have hyps:
    "truthy (get_field (request 12582912 []) ''fileName'')"
    "truthy (get_field (request 12582912 []) ''contentType'')"
    "get_field (request 12582912 []) ''fileSize'' = JNum (Fin 12582912)"
    "SINGLE_UPLOAD_LIMIT < 12582912"
    "\<not> truthy (get_field (request 12582912 []) ''uploadId'')"
    by (simp_all add: request_def read_prop_def SINGLE_UPLOAD_LIMIT_def)
  have run: "fst (handler sample_env (Parsed (request 12582912 []))) =
       Inr \<lparr>statusCode = 200, headers = [(''Content-Type'', ''application/json'')],
            body = MultipartStartPlan (JStr ''a.bin'') (JStr ''application/octet-stream'')
              (JStr ''session-1'') (Fin 3)
              [(1, ''https://signed''), (2, ''https://signed''), (3, ''https://signed'')]\<rparr>"
  proof -
    have "\<lceil>(12::rat) / 5\<rceil> = 3" by (rule ceiling_unique) simp_all
    then show ?thesis by (simp add: run_simps sample_env_def)
  qed
  let ?huge = "request (18014398509481984 * 5242880) []"
  have huge:
    "truthy (get_field ?huge ''fileName'')"
    "truthy (get_field ?huge ''contentType'')"
    "get_field ?huge ''fileSize'' = JNum (Fin (18014398509481984 * 5242880))"
    "SINGLE_UPLOAD_LIMIT < 18014398509481984 * 5242880"
    "\<not> truthy (get_field ?huge ''uploadId'')"
    by (simp_all add: request_def read_prop_def SINGLE_UPLOAD_LIMIT_def)
  have answered: "rejection sample_env before c = None" for before c
    by (cases c) (simp_all add: sample_env_def)
  have parts: "\<lceil>(18014398509481984 * 5242880 :: rat) / SINGLE_UPLOAD_LIMIT\<rceil> = 18014398509481984"
    by (simp add: SINGLE_UPLOAD_LIMIT_def)
  have msg: "array_length_message sample_env = ''Invalid array length''"
    by (simp add: sample_env_def)
  from multipart_start_plan [OF huge, of sample_env]
  have "\<exists>calls. handler sample_env (Parsed ?huge) =
       (Inr \<lparr>statusCode = 500, headers = [(''Content-Type'', ''application/json'')],
             body = ErrorResponse (array_length_message sample_env)\<rparr>, calls)"
    unfolding parts by (simp add: answered)
  then have "fst (handler sample_env (Parsed ?huge)) =
       Inr \<lparr>statusCode = 500, headers = [(''Content-Type'', ''application/json'')],
            body = ErrorResponse ''Invalid array length''\<rparr>"
    unfolding msg by auto
  with multipart_start_plan [OF hyps, of sample_env] hyps run huge(4) show ?thesis
    by blast
qed

text \<open>
  C3. A request that completes a multipart upload (\<open>fileSize\<close> a number above the limit,
  \<open>uploadId\<close>, \<open>complete\<close> and \<open>parts\<close> truthy) makes one call: it sends a
  \<open>CompleteMultipartUploadCommand\<close> whose parts are the value of \<open>parts\<close> in the request,
  as it is. The sample request has its parts out of order and one of them twice.
\<close>

theorem complete_passes_parts:
  assumes fileName: "truthy (get_field b ''fileName'')"
    and contentType: "truthy (get_field b ''contentType'')"
    and fileSize: "get_field b ''fileSize'' = JNum (Fin n)"
    and big: "SINGLE_UPLOAD_LIMIT < n"
    and uploadId: "truthy (get_field b ''uploadId'')"
    and complete: "truthy (get_field b ''complete'')"
    and parts: "truthy (get_field b ''parts'')"
  shows "snd (handler e (Parsed b)) =
     [Send (CompleteMultipartUploadCommand (BUCKET e) (get_field b ''fileName'')
        (get_field b ''uploadId'') (get_field b ''parts''))]"
  using assms truthy_big [OF big] chooseUploadType_multipart [OF big, of e]
  by (auto simp add: handler_def handle_body_valid dispatch_def completeMultipart_def Let_def
      split: prod.splits sum.splits)

theorem complete_passes_parts_witness:
  "truthy (get_field (request 12582912 completion) ''fileName'')
   \<and> truthy (get_field (request 12582912 completion) ''contentType'')
   \<and> get_field (request 12582912 completion) ''fileSize'' = JNum (Fin 12582912)
   \<and> SINGLE_UPLOAD_LIMIT < 12582912
   \<and> truthy (get_field (request 12582912 completion) ''uploadId'')
   \<and> truthy (get_field (request 12582912 completion) ''complete'')
   \<and> truthy (get_field (request 12582912 completion) ''parts'')
   \<and> snd (handler sample_env (Parsed (request 12582912 completion))) =
       [Send (CompleteMultipartUploadCommand (JStr ''uploads'') (JStr ''a.bin'')
          (JStr ''session-1'') sample_parts)]"
proof -
  have hyps:
    "truthy (get_field (request 12582912 completion) ''fileName'')"
    "truthy (get_field (request 12582912 completion) ''contentType'')"
    "get_field (request 12582912 completion) ''fileSize'' = JNum (Fin 12582912)"
    "SINGLE_UPLOAD_LIMIT < 12582912"
    "truthy (get_field (request 12582912 completion) ''uploadId'')"
    "truthy (get_field (request 12582912 completion) ''complete'')"
    "truthy (get_field (request 12582912 completion) ''parts'')"
    by (simp_all add: request_def completion_def sample_parts_def read_prop_def
        SINGLE_UPLOAD_LIMIT_def)
  have fields: "BUCKET sample_env = JStr ''uploads''"
    "get_field (request 12582912 completion) ''fileName'' = JStr ''a.bin''"
    "get_field (request 12582912 completion) ''uploadId'' = JStr ''session-1''"
    "get_field (request 12582912 completion) ''parts'' = sample_parts"
    by (simp_all add: request_def completion_def read_prop_def sample_env_def)
  from complete_passes_parts [OF hyps, of sample_env] hyps fields show ?thesis
    by simp
qed

text \<open>
  C4. A request in which \<open>fileName\<close>, \<open>contentType\<close> or \<open>fileSize\<close> is missing is to be
  answered with status 400. The body \<^verbatim>\<open>null\<close> is valid JSON and has none of the three
  fields; on it the handler returns no response at all, because the destructuring at
  line 27, which is outside both \<^verbatim>\<open>try\<close> blocks, throws. For every other body, and
  for an event without a body, the property holds, without any call: these are
  \<open>missing_field_400\<close> and \<open>no_body_400\<close> below.
\<close>

theorem null_body_no_400:
  "\<nexists>r. fst (handler e (Parsed JNull)) = Inr r"
  by (simp add: handler_def handle_body_def)

lemma missing_field_400:
  assumes "b \<noteq> JNull" "b \<noteq> JUndefined"
    and "\<not> truthy (get_field b ''fileName'') \<or> \<not> truthy (get_field b ''contentType'')
         \<or> \<not> truthy (get_field b ''fileSize'')"
  shows "handler e (Parsed b) =
     (Inr \<lparr>statusCode = 400, headers = [(''Content-Type'', ''application/json'')],
           body = ErrorResponse (''Missing 'fileName', 'contentType' or 'fileSize'' @ [CHR 0x27])\<rparr>, [])"
  using assms by (auto simp add: handler_def handle_body_def formatResponse_def Let_def)

lemma no_body_400:
  "handler e NoBody =
     (Inr \<lparr>statusCode = 400, headers = [(''Content-Type'', ''application/json'')],
           body = ErrorResponse (''Missing 'fileName', 'contentType' or 'fileSize'' @ [CHR 0x27])\<rparr>, [])"
  by (simp add: handler_def handle_body_def formatResponse_def read_prop_def)

text \<open>
  C5. When a call is rejected, it is the last call of the run (nothing is tried again
  and nothing is sent to abort a session that was opened), and the response has status
  500 and the message of the rejection as its error text.
\<close>

theorem rejected_call_gives_500:
  assumes "handler e ev = (res, calls)"
    and "calls = before @ c # after"
    and "rejection e before c = Some m"
  shows "after = [] \<and>
         res = Inr \<lparr>statusCode = 500, headers = [(''Content-Type'', ''application/json'')],
                    body = ErrorResponse m\<rparr>"
proof -
  from handler_trace [OF assms(1)] show ?thesis
  proof
    assume "\<exists>m'. trace e calls (Some m') \<and> res = Inr (formatResponse 500 (ErrorResponse m'))"
    then obtain m' where t: "trace e calls (Some m')"
      and res: "res = Inr (formatResponse 500 (ErrorResponse m'))" by blast
    from trace_split [OF t assms(2,3)] res show ?thesis
      by (simp add: formatResponse_def)
  next
    assume "trace e calls None"
    from trace_split [OF this assms(2,3)] show ?thesis by simp
  qed
qed

theorem rejected_call_gives_500_witness:
  "snd (handler rejecting_env (Parsed (request 12582912 []))) =
     [Send (CreateMultipartUploadCommand (JStr ''uploads'') (JStr ''a.bin'')
        (JStr ''application/octet-stream'')),
      GetSignedUrl (UploadPartCommand (JStr ''uploads'') (JStr ''a.bin'') (JStr ''session-1'') 1) 3600]
     @ GetSignedUrl (UploadPartCommand (JStr ''uploads'') (JStr ''a.bin'') (JStr ''session-1'') 2) 3600
     # []
   \<and> rejection rejecting_env
       [Send (CreateMultipartUploadCommand (JStr ''uploads'') (JStr ''a.bin'')
          (JStr ''application/octet-stream'')),
        GetSignedUrl (UploadPartCommand (JStr ''uploads'') (JStr ''a.bin'') (JStr ''session-1'') 1) 3600]
       (GetSignedUrl (UploadPartCommand (JStr ''uploads'') (JStr ''a.bin'') (JStr ''session-1'') 2) 3600)
     = Some ''AccessDenied''
   \<and> fst (handler rejecting_env (Parsed (request 12582912 []))) =
       Inr \<lparr>statusCode = 500, headers = [(''Content-Type'', ''application/json'')],
            body = ErrorResponse ''AccessDenied''\<rparr>"
proof -
  let ?before = "[Send (CreateMultipartUploadCommand (JStr ''uploads'') (JStr ''a.bin'')
          (JStr ''application/octet-stream'')),
        GetSignedUrl (UploadPartCommand (JStr ''uploads'') (JStr ''a.bin'') (JStr ''session-1'') 1) 3600]"
  let ?c = "GetSignedUrl (UploadPartCommand (JStr ''uploads'') (JStr ''a.bin'') (JStr ''session-1'') 2) 3600"
  have "\<lceil>(12::rat) / 5\<rceil> = 3" by (rule ceiling_unique) simp_all
  then have calls: "snd (handler rejecting_env (Parsed (request 12582912 []))) = ?before @ ?c # []"
    by (simp add: run_simps rejecting_env_def)
  have rejected: "rejection rejecting_env ?before ?c = Some ''AccessDenied''"
    by (simp add: rejecting_env_def)
  have run: "handler rejecting_env (Parsed (request 12582912 [])) =
      (fst (handler rejecting_env (Parsed (request 12582912 []))),
       snd (handler rejecting_env (Parsed (request 12582912 []))))"
    by simp
  from rejected_call_gives_500 [OF run calls rejected] calls rejected show ?thesis
    by blast
qed

text \<open>
  C6, as the code has it. A request with \<open>fileSize\<close> a number above the limit and
  \<open>uploadId\<close> truthy, in which \<open>complete\<close> or \<open>parts\<close> is absent or falsy, is answered with
  status 400 and the message of line 56, and no call is made.
\<close>

theorem incomplete_multipart_400:
  assumes fileName: "truthy (get_field b ''fileName'')"
    and contentType: "truthy (get_field b ''contentType'')"
    and fileSize: "get_field b ''fileSize'' = JNum (Fin n)"
    and big: "SINGLE_UPLOAD_LIMIT < n"
    and uploadId: "truthy (get_field b ''uploadId'')"
    and incomplete: "\<not> (truthy (get_field b ''complete'') \<and> truthy (get_field b ''parts''))"
  shows "handler e (Parsed b) =
     (Inr \<lparr>statusCode = 400, headers = [(''Content-Type'', ''application/json'')],
           body = ErrorResponse
             ''Invalid multipart request. Make sure to provide 'uploadId', 'complete', and 'parts' when completing multipart upload.''\<rparr>,
      [])"
  using assms truthy_big [OF big] chooseUploadType_multipart [OF big, of e]
  by (auto simp add: handler_def handle_body_valid dispatch_def formatResponse_def)

theorem incomplete_multipart_400_witness:
  "truthy (get_field (request 12582912 [(''uploadId'', JStr ''session-1'')]) ''fileName'')
   \<and> truthy (get_field (request 12582912 [(''uploadId'', JStr ''session-1'')]) ''contentType'')
   \<and> get_field (request 12582912 [(''uploadId'', JStr ''session-1'')]) ''fileSize''
       = JNum (Fin 12582912)
   \<and> SINGLE_UPLOAD_LIMIT < 12582912
   \<and> truthy (get_field (request 12582912 [(''uploadId'', JStr ''session-1'')]) ''uploadId'')
   \<and> \<not> (truthy (get_field (request 12582912 [(''uploadId'', JStr ''session-1'')]) ''complete'')
        \<and> truthy (get_field (request 12582912 [(''uploadId'', JStr ''session-1'')]) ''parts''))
   \<and> handler sample_env (Parsed (request 12582912 [(''uploadId'', JStr ''session-1'')])) =
       (Inr \<lparr>statusCode = 400, headers = [(''Content-Type'', ''application/json'')],
             body = ErrorResponse
               ''Invalid multipart request. Make sure to provide 'uploadId', 'complete', and 'parts' when completing multipart upload.''\<rparr>,
        [])"
proof -
  let ?b = "request 12582912 [(''uploadId'', JStr ''session-1'')]"
  have hyps:
    "truthy (get_field ?b ''fileName'')"
    "truthy (get_field ?b ''contentType'')"
    "get_field ?b ''fileSize'' = JNum (Fin 12582912)"
    "SINGLE_UPLOAD_LIMIT < 12582912"
    "truthy (get_field ?b ''uploadId'')"
    "\<not> (truthy (get_field ?b ''complete'') \<and> truthy (get_field ?b ''parts''))"
    by (simp_all add: request_def read_prop_def SINGLE_UPLOAD_LIMIT_def)
  from incomplete_multipart_400 [OF hyps, of sample_env] hyps show ?thesis
    by blast
qed

text \<open>
  The message of the response is not the text \<^verbatim>\<open>must provide uploadId, complete, and parts
  together\<close>; and an \<open>uploadId\<close> that is there but is the empty string is taken as absent
  by the test of line 45, so that the request opens a new session.
\<close>

theorem claimed_message_counterexample:
  "handler sample_env (Parsed (request 12582912 [(''uploadId'', JStr ''session-1'')])) =
     (Inr \<lparr>statusCode = 400, headers = [(''Content-Type'', ''application/json'')],
           body = ErrorResponse
             ''Invalid multipart request. Make sure to provide 'uploadId', 'complete', and 'parts' when completing multipart upload.''\<rparr>,
      [])
   \<and> handler sample_env (Parsed (request 12582912 [(''uploadId'', JStr ''session-1'')])) \<noteq>
     (Inr \<lparr>statusCode = 400, headers = [(''Content-Type'', ''application/json'')],
           body = ErrorResponse ''must provide uploadId, complete, and parts together''\<rparr>, [])
   \<and> handler sample_env (Parsed (request 12582912 [(''uploadId'', JStr [])])) =
     (Inr \<lparr>statusCode = 200, headers = [(''Content-Type'', ''application/json'')],
           body = MultipartStartPlan (JStr ''a.bin'') (JStr ''application/octet-stream'')
             (JStr ''session-1'') (Fin 3)
             [(1, ''https://signed''), (2, ''https://signed''), (3, ''https://signed'')]\<rparr>,
      [Send (CreateMultipartUploadCommand (JStr ''uploads'') (JStr ''a.bin'')
         (JStr ''application/octet-stream'')),
       GetSignedUrl (UploadPartCommand (JStr ''uploads'') (JStr ''a.bin'') (JStr ''session-1'') 1) 3600,
       GetSignedUrl (UploadPartCommand (JStr ''uploads'') (JStr ''a.bin'') (JStr ''session-1'') 2) 3600,
       GetSignedUrl (UploadPartCommand (JStr ''uploads'') (JStr ''a.bin'') (JStr ''session-1'') 3) 3600])"
proof -
  have "\<lceil>(12::rat) / 5\<rceil> = 3" by (rule ceiling_unique) simp_all
  then show ?thesis by (simp add: run_simps sample_env_def)
qed

text \<open>
  C7. A body that cannot be parsed is answered with status 400 and the error
  \<^verbatim>\<open>Invalid JSON body\<close>, before any field is read and without any call.
\<close>

theorem unparseable_body_400:
  "handler e Unparseable =
     (Inr \<lparr>statusCode = 400, headers = [(''Content-Type'', ''application/json'')],
           body = ErrorResponse ''Invalid JSON body''\<rparr>, [])"
  by (simp add: handler_def formatResponse_def)

text \<open>
  C8. When the handler returns a \<open>SingleUploadPlan\<close>, it made one call, which asked for
  the URL of the plan with \<open>expiresIn = 900\<close>. When it returns a \<open>MultipartStartPlan\<close>, it
  opened the session and then made one call for each entry of \<open>urls\<close>, in order, each
  with \<open>expiresIn = 3600\<close> and answered with the URL of the entry.
\<close>

theorem signed_url_validity:
  assumes "handler e ev = (Inr r, calls)"
  shows "(\<forall>fileName contentType url. body r = SingleUploadPlan fileName contentType url \<longrightarrow>
            calls = [GetSignedUrl (PutObjectCommand (BUCKET e) fileName contentType) 900]
          \<and> getSignedUrl e [] (PutObjectCommand (BUCKET e) fileName contentType) 900 = Inr url)
       \<and> (\<forall>fileName contentType uploadId totalParts urls.
            body r = MultipartStartPlan fileName contentType uploadId totalParts urls \<longrightarrow>
            calls = Send (CreateMultipartUploadCommand (BUCKET e) fileName contentType)
              # map (\<lambda>pu. GetSignedUrl (UploadPartCommand (BUCKET e) fileName uploadId (fst pu)) 3600) urls
          \<and> signed_parts e fileName uploadId
              [Send (CreateMultipartUploadCommand (BUCKET e) fileName contentType)] urls)"
proof -
  have "(\<exists>m. body r = ErrorResponse m)
       \<or> (\<exists>fn result. body r = MultipartCompleteResult fn result)
       \<or> (\<exists>fn ct url. body r = SingleUploadPlan fn ct url
            \<and> getSignedUrl e [] (PutObjectCommand (BUCKET e) fn ct) 900 = Inr url
            \<and> calls = [GetSignedUrl (PutObjectCommand (BUCKET e) fn ct) 900])
       \<or> (\<exists>fn ct uid tp urls. body r = MultipartStartPlan fn ct uid tp urls
            \<and> calls = Send (CreateMultipartUploadCommand (BUCKET e) fn ct)
                # map (part_call e fn uid) urls
            \<and> signed_parts e fn uid [Send (CreateMultipartUploadCommand (BUCKET e) fn ct)] urls)"
  proof (cases ev)
    case NoBody
    with assms show ?thesis by (simp add: handler_def handle_body_Inr)
  next
    case Unparseable
    with assms show ?thesis by (auto simp add: handler_def formatResponse_def)
  next
    case (Parsed v)
    with assms show ?thesis by (simp add: handler_def handle_body_Inr)
  qed
  moreover have "part_call e fn uid = (\<lambda>pu. GetSignedUrl (UploadPartCommand (BUCKET e) fn uid (fst pu)) 3600)"
    for fn uid
    by (rule ext) (simp add: part_call_def)
  ultimately show ?thesis by auto
qed

theorem signed_url_validity_witness:
  "handler sample_env (Parsed (request 12582912 [])) =
     (Inr \<lparr>statusCode = 200, headers = [(''Content-Type'', ''application/json'')],
           body = MultipartStartPlan (JStr ''a.bin'') (JStr ''application/octet-stream'')
             (JStr ''session-1'') (Fin 3)
             [(1, ''https://signed''), (2, ''https://signed''), (3, ''https://signed'')]\<rparr>,
      [Send (CreateMultipartUploadCommand (JStr ''uploads'') (JStr ''a.bin'')
         (JStr ''application/octet-stream'')),
       GetSignedUrl (UploadPartCommand (JStr ''uploads'') (JStr ''a.bin'') (JStr ''session-1'') 1) 3600,
       GetSignedUrl (UploadPartCommand (JStr ''uploads'') (JStr ''a.bin'') (JStr ''session-1'') 2) 3600,
       GetSignedUrl (UploadPartCommand (JStr ''uploads'') (JStr ''a.bin'') (JStr ''session-1'') 3) 3600])
   \<and> signed_parts sample_env (JStr ''a.bin'') (JStr ''session-1'')
       [Send (CreateMultipartUploadCommand (BUCKET sample_env) (JStr ''a.bin'')
          (JStr ''application/octet-stream''))]
       [(1, ''https://signed''), (2, ''https://signed''), (3, ''https://signed'')]
   \<and> handler sample_env (Parsed (request 1048576 [])) =
     (Inr \<lparr>statusCode = 200, headers = [(''Content-Type'', ''application/json'')],
           body = SingleUploadPlan (JStr ''a.bin'') (JStr ''application/octet-stream'')
             ''https://signed''\<rparr>,
      [GetSignedUrl (PutObjectCommand (JStr ''uploads'') (JStr ''a.bin'')
         (JStr ''application/octet-stream'')) 900])
   \<and> getSignedUrl sample_env [] (PutObjectCommand (BUCKET sample_env) (JStr ''a.bin'')
         (JStr ''application/octet-stream'')) 900 = Inr ''https://signed''"
proof -
  have "\<lceil>(12::rat) / 5\<rceil> = 3" by (rule ceiling_unique) simp_all
  then have multi: "handler sample_env (Parsed (request 12582912 [])) =
     (Inr \<lparr>statusCode = 200, headers = [(''Content-Type'', ''application/json'')],
           body = MultipartStartPlan (JStr ''a.bin'') (JStr ''application/octet-stream'')
             (JStr ''session-1'') (Fin 3)
             [(1, ''https://signed''), (2, ''https://signed''), (3, ''https://signed'')]\<rparr>,
      [Send (CreateMultipartUploadCommand (JStr ''uploads'') (JStr ''a.bin'')
         (JStr ''application/octet-stream'')),
       GetSignedUrl (UploadPartCommand (JStr ''uploads'') (JStr ''a.bin'') (JStr ''session-1'') 1) 3600,
       GetSignedUrl (UploadPartCommand (JStr ''uploads'') (JStr ''a.bin'') (JStr ''session-1'') 2) 3600,
       GetSignedUrl (UploadPartCommand (JStr ''uploads'') (JStr ''a.bin'') (JStr ''session-1'') 3) 3600])"
    by (simp add: run_simps sample_env_def)
  have single: "handler sample_env (Parsed (request 1048576 [])) =
     (Inr \<lparr>statusCode = 200, headers = [(''Content-Type'', ''application/json'')],
           body = SingleUploadPlan (JStr ''a.bin'') (JStr ''application/octet-stream'')
             ''https://signed''\<rparr>,
      [GetSignedUrl (PutObjectCommand (JStr ''uploads'') (JStr ''a.bin'')
         (JStr ''application/octet-stream'')) 900])"
    by (simp add: run_simps sample_env_def)
  from signed_url_validity [OF multi] signed_url_validity [OF single] multi single
  show ?thesis by simp
qed

text \<open>
  C9. Every request is to be answered with one response. On the body \<^verbatim>\<open>null\<close> the
  handler throws a \<open>TypeError\<close> instead (line 27 is outside both \<^verbatim>\<open>try\<close> blocks). On every
  other body it returns a response, with the header
  \<^verbatim>\<open>Content-Type: application/json\<close> and either status 200 and a plan or a result, or
  status 400 or 500 and an error: this is \<open>handler_responds\<close> below.
\<close>

theorem null_body_throws:
  "handler e (Parsed JNull) = (Inl TypeError, [])"
  by (simp add: handler_def handle_body_def)

lemma handle_body_responds:
  assumes "b \<noteq> JNull" "b \<noteq> JUndefined"
  shows "\<exists>r. fst (handle_body e b) = Inr r
           \<and> headers r = [(''Content-Type'', ''application/json'')]
           \<and> (statusCode r = 200 \<and> (\<forall>m. body r \<noteq> ErrorResponse m)
              \<or> statusCode r \<in> {400, 500} \<and> (\<exists>m. body r = ErrorResponse m))"
proof (cases "\<not> truthy (get_field b ''fileName'') \<or> \<not> truthy (get_field b ''contentType'')
    \<or> \<not> truthy (get_field b ''fileSize'')")
  case True
  with assms show ?thesis
    by (auto simp add: handle_body_def formatResponse_def)
next
  case False
  let ?d = "dispatch e (get_field b ''fileName'') (get_field b ''contentType'')
      (get_field b ''fileSize'') (get_field b ''uploadId'') (get_field b ''complete'')
      (get_field b ''parts'')"
  from False have h: "handle_body e b =
     (case ?d of
        (Inl err, calls) \<Rightarrow>
          (Inr (formatResponse 500 (ErrorResponse (err_message e err))), calls)
      | (Inr response, calls) \<Rightarrow> (Inr response, calls))"
    by (simp add: handle_body_valid)
  obtain x calls where d: "?d = (x, calls)" by (cases ?d)
  show ?thesis
  proof (cases x)
    case (Inl err)
    with h d show ?thesis by (simp add: formatResponse_def)
  next
    case (Inr r)
    with d have "?d = (Inr r, calls)" by simp
    from dispatch_response [OF this] h d Inr show ?thesis by auto
  qed
qed

lemma handler_responds:
  assumes "ev \<noteq> Parsed JNull" "ev \<noteq> Parsed JUndefined"
  shows "\<exists>r. fst (handler e ev) = Inr r
           \<and> headers r = [(''Content-Type'', ''application/json'')]
           \<and> (statusCode r = 200 \<and> (\<forall>m. body r \<noteq> ErrorResponse m)
              \<or> statusCode r \<in> {400, 500} \<and> (\<exists>m. body r = ErrorResponse m))"
proof (cases ev)
  case NoBody
  then show ?thesis using handle_body_responds [of "JObj []" e] by (simp add: handler_def)
next
  case Unparseable
  then show ?thesis by (simp add: handler_def formatResponse_def)
next
  case (Parsed v)
  with assms have "v \<noteq> JNull" "v \<noteq> JUndefined" by auto
  from handle_body_responds [OF this, of e] Parsed show ?thesis by (simp add: handler_def)
qed

text \<open>
  C10, as the code has it. A request with \<open>fileName\<close> and \<open>contentType\<close> truthy whose
  \<open>fileSize\<close> is a number other than zero and at most the limit is classified as
  \<^verbatim>\<open>"single"\<close> and makes one call, which
  signs the URL of a single upload, and is answered with status 200 and a
  \<open>SingleUploadPlan\<close> when the call is answered, with status 500 when it is rejected. The
  result does not mention \<open>uploadId\<close>, \<open>complete\<close> or \<open>parts\<close>: whatever they are, nothing
  is completed.
\<close>

theorem small_file_single:
  assumes fileName: "truthy (get_field b ''fileName'')"
    and contentType: "truthy (get_field b ''contentType'')"
    and fileSize: "get_field b ''fileSize'' = JNum (Fin n)"
    and nonzero: "n \<noteq> 0"
    and small: "n \<le> SINGLE_UPLOAD_LIMIT"
  shows "chooseUploadType e (get_field b ''fileSize'') = ''single''
   \<and> handler e (Parsed b) =
     (case getSignedUrl e []
        (PutObjectCommand (BUCKET e) (get_field b ''fileName'') (get_field b ''contentType'')) 900 of
        Inl err \<Rightarrow>
          (Inr \<lparr>statusCode = 500, headers = [(''Content-Type'', ''application/json'')],
                body = ErrorResponse (message err)\<rparr>,
           [GetSignedUrl (PutObjectCommand (BUCKET e) (get_field b ''fileName'')
              (get_field b ''contentType'')) 900])
      | Inr url \<Rightarrow>
          (Inr \<lparr>statusCode = 200, headers = [(''Content-Type'', ''application/json'')],
                body = SingleUploadPlan (get_field b ''fileName'') (get_field b ''contentType'') url\<rparr>,
           [GetSignedUrl (PutObjectCommand (BUCKET e) (get_field b ''fileName'')
              (get_field b ''contentType'')) 900]))"
  using assms chooseUploadType_single [OF small, of e]
  by (auto simp add: handler_def handle_body_valid dispatch_def getPresignedUrl_def
      formatResponse_def Let_def split: prod.splits sum.splits)

theorem small_file_single_witness:
  "truthy (get_field (request 1048576 completion) ''fileName'')
   \<and> truthy (get_field (request 1048576 completion) ''contentType'')
   \<and> get_field (request 1048576 completion) ''fileSize'' = JNum (Fin 1048576)
   \<and> (1048576::rat) \<noteq> 0
   \<and> 1048576 \<le> SINGLE_UPLOAD_LIMIT
   \<and> handler sample_env (Parsed (request 1048576 completion)) =
     (Inr \<lparr>statusCode = 200, headers = [(''Content-Type'', ''application/json'')],
           body = SingleUploadPlan (JStr ''a.bin'') (JStr ''application/octet-stream'')
             ''https://signed''\<rparr>,
      [GetSignedUrl (PutObjectCommand (JStr ''uploads'') (JStr ''a.bin'')
         (JStr ''application/octet-stream'')) 900])"
proof -
  have hyps:
    "truthy (get_field (request 1048576 completion) ''fileName'')"
    "truthy (get_field (request 1048576 completion) ''contentType'')"
    "get_field (request 1048576 completion) ''fileSize'' = JNum (Fin 1048576)"
    "(1048576::rat) \<noteq> 0"
    "1048576 \<le> SINGLE_UPLOAD_LIMIT"
    by (simp_all add: request_def read_prop_def SINGLE_UPLOAD_LIMIT_def)
  have fields: "BUCKET sample_env = JStr ''uploads''"
    "get_field (request 1048576 completion) ''fileName'' = JStr ''a.bin''"
    "get_field (request 1048576 completion) ''contentType'' = JStr ''application/octet-stream''"
    "getSignedUrl sample_env = (\<lambda>calls command expiresIn. Inr ''https://signed'')"
    by (simp_all add: request_def read_prop_def sample_env_def)
  from small_file_single [OF hyps, of sample_env] hyps fields show ?thesis
    by simp
qed

text \<open>
  With \<open>fileSize = 0\<close> the same request does not pass the check of line 29 and is
  answered with status 400.
\<close>

theorem zero_fileSize_counterexample:
  "handler sample_env (Parsed (request 0 completion)) =
     (Inr \<lparr>statusCode = 400, headers = [(''Content-Type'', ''application/json'')],
           body = ErrorResponse (''Missing 'fileName', 'contentType' or 'fileSize'' @ [CHR 0x27])\<rparr>,
      [])"
  by (simp add: run_simps)

end
